theory Spec2Isabelle
  imports Main
begin

section \<open>Strings and the library functions hosts.go calls\<close>

text \<open>
  A Go string is a sequence of bytes; it is modelled as a \<open>char list\<close>.
  The functions of this section belong to Go's standard library (\<open>strings\<close>, \<open>regexp\<close>,
  \<open>strconv\<close>, \<open>net\<close>), not to the repository; each is written after its documented behaviour.
\<close>

definition isUpperASCII :: "char \<Rightarrow> bool" where
  "isUpperASCII c = (65 \<le> (of_char c :: nat) \<and> (of_char c :: nat) \<le> 90)"

definition toLowerByte :: "char \<Rightarrow> char" where
  "toLowerByte c = (if isUpperASCII c then char_of ((of_char c :: nat) + 32) else c)"

text \<open>
  \<open>strings.ToLower\<close> on ASCII text: the letters A-Z are mapped to a-z and every other byte is
  kept. (On bytes from 0x80 upwards Go applies the Unicode case mapping rune by rune; that part
  of the library is outside this model.)
\<close>

definition ToLower :: "string \<Rightarrow> string" where
  "ToLower s = map toLowerByte s"

subsection \<open>Regular expressions\<close>

text \<open>
  The fragment of Go's \<open>regexp\<close> syntax that \<open>validHostPattern\<close> is written in: literal bytes,
  character classes given by ranges, concatenation, \<open>*\<close>, \<open>?\<close> and \<open>{m,n}\<close>. \<open>Null\<close> (no string) only
  arises as a derivative.
\<close>

datatype regex =
    Null
  | Eps
  | Lit char
  | Class "(char \<times> char) list"
  | Seq regex regex
  | Alt regex regex
  | Star regex
  | Opt regex
  | Rep regex nat nat

definition inClass :: "char \<Rightarrow> (char \<times> char) list \<Rightarrow> bool" where
  "inClass c rs = list_ex (\<lambda>(lo, hi). (of_char lo :: nat) \<le> of_char c \<and> (of_char c :: nat) \<le> of_char hi) rs"

fun nullable :: "regex \<Rightarrow> bool" where
  "nullable Null = False"
| "nullable Eps = True"
| "nullable (Lit c) = False"
| "nullable (Class rs) = False"
| "nullable (Seq r s) = (nullable r \<and> nullable s)"
| "nullable (Alt r s) = (nullable r \<or> nullable s)"
| "nullable (Star r) = True"
| "nullable (Opt r) = True"
| "nullable (Rep r lo hi) = (lo = 0 \<or> nullable r)"

text \<open>The derivative of a regular expression by one byte (Brzozowski).\<close>

fun deriv :: "regex \<Rightarrow> char \<Rightarrow> regex" where
  "deriv Null c = Null"
| "deriv Eps c = Null"
| "deriv (Lit d) c = (if c = d then Eps else Null)"
| "deriv (Class rs) c = (if inClass c rs then Eps else Null)"
| "deriv (Seq r s) c =
     (if nullable r then Alt (Seq (deriv r c) s) (deriv s c) else Seq (deriv r c) s)"
| "deriv (Alt r s) c = Alt (deriv r c) (deriv s c)"
| "deriv (Star r) c = Seq (deriv r c) (Star r)"
| "deriv (Opt r) c = deriv r c"
| "deriv (Rep r lo hi) c =
     (if hi = 0 then Null else Seq (deriv r c) (Rep r (lo - 1) (hi - 1)))"

fun derivs :: "regex \<Rightarrow> string \<Rightarrow> regex" where
  "derivs r [] = r"
| "derivs r (c # cs) = derivs (deriv r c) cs"

text \<open>\<open>matches r s\<close>: the whole of \<open>s\<close> is a word of \<open>r\<close>.\<close>

definition matches :: "regex \<Rightarrow> string \<Rightarrow> bool" where
  "matches r s = nullable (derivs r s)"

subsection \<open>Splitting at a separator\<close>

text \<open>\<open>strings.Split(s, sep)\<close> for a one-byte separator: never the empty list, \<open>[[]]\<close> for the empty string.\<close>

fun splitOn :: "char \<Rightarrow> string \<Rightarrow> string list" where
  "splitOn d [] = [[]]"
| "splitOn d (c # cs) =
     (if c = d then [] # splitOn d cs
      else (case splitOn d cs of [] \<Rightarrow> [[c]] | x # xs \<Rightarrow> (c # x) # xs))"

section \<open>Errors\<close>

text \<open>
  The values an \<open>interface{}\<close> holds after \<open>json.Unmarshal\<close> into \<open>map[string]interface{}\<close>:
  a string, a \<open>[]interface{}\<close>, or anything else (number, boolean, null, object).
\<close>

datatype jvalue = JString string | JArray "jvalue list" | JOther

text \<open>
  Every error value and panic hosts.go can produce. \<open>NumError\<close> is the \<open>*strconv.NumError\<close> of
  \<open>strconv.Atoi\<close>, with the text it was given; \<open>JSONError\<close> is an error of the \<open>encoding/json\<close> codec;
  \<open>NilDereference\<close> is the panic of reading through a nil \<open>*Hosts\<close>.
\<close>

datatype error =
    InvalidHostPattern string
  | NumError string
  | InvalidHostValue jvalue
  | ConflictingPorts string
  | InvalidHostValueType string
  | JSONError string
  | NilDereference

section \<open>Address values\<close>

text \<open>
  \<open>net.IP\<close> is a byte slice; the nil \<open>net.IP\<close> (what \<open>net.ParseIP\<close> returns for text that is not
  an IP literal) is the empty list. \<open>Host\<close> is the struct hosts.go builds with
  \<open>Host{IPs: ..., Port: ...}\<close>; its zero value has no IPs and port 0.
\<close>

type_synonym IP = "nat list"

record Host =
  IPs :: "IP list"
  Port :: int

definition zeroHost :: Host where
  "zeroHost = \<lparr>IPs = [], Port = 0\<rparr>"

section \<open>Parsing an address\<close>

text \<open>\<open>strings.IndexByte\<close> and \<open>strings.LastIndexByte\<close>; \<open>None\<close> is the result -1.\<close>

fun indexByte :: "string \<Rightarrow> char \<Rightarrow> nat option" where
  "indexByte [] c = None"
| "indexByte (x # xs) c = (if x = c then Some 0 else map_option Suc (indexByte xs c))"

definition lastIndexByte :: "string \<Rightarrow> char \<Rightarrow> nat option" where
  "lastIndexByte s c = map_option (\<lambda>j. length s - 1 - j) (indexByte (rev s) c)"

text \<open>
  \<open>net.SplitHostPort\<close>: the host and the port of \<open>host:port\<close>, \<open>[host]:port\<close>; \<open>None\<close> stands for
  its errors (missing port, too many colons, a misplaced bracket), which \<open>parseHost\<close> does not
  tell apart.
\<close>

definition SplitHostPort :: "string \<Rightarrow> (string \<times> string) option" where
  "SplitHostPort hostport =
     (case lastIndexByte hostport (CHR '':'') of
        None \<Rightarrow> None
      | Some i \<Rightarrow>
          if take 1 hostport = ''[''
          then (case indexByte hostport (CHR '']'') of
                  None \<Rightarrow> None
                | Some e \<Rightarrow>
                    if e + 1 = length hostport then None
                    else if e + 1 = i
                    then (if indexByte (drop 1 hostport) (CHR ''['') \<noteq> None then None
                          else if indexByte (drop (e + 1) hostport) (CHR '']'') \<noteq> None then None
                          else Some (take (e - 1) (drop 1 hostport), drop (i + 1) hostport))
                    else None)
          else (if indexByte (take i hostport) (CHR '':'') \<noteq> None then None
                else if indexByte hostport (CHR ''['') \<noteq> None then None
                else if indexByte hostport (CHR '']'') \<noteq> None then None
                else Some (take i hostport, drop (i + 1) hostport)))"

definition isDigit :: "char \<Rightarrow> bool" where
  "isDigit c = (48 \<le> (of_char c :: nat) \<and> (of_char c :: nat) \<le> 57)"

text \<open>The value of a string of decimal digits.\<close>

definition digitsVal :: "string \<Rightarrow> int" where
  "digitsVal ds = foldl (\<lambda>v c. v * 10 + ((of_char c :: int) - 48)) 0 ds"

text \<open>
  \<open>strconv.Atoi\<close> with a 64-bit \<open>int\<close>: an optional sign, then one or more decimal digits, the
  value within the range of \<open>int\<close>. Every other text is an error (a \<open>*strconv.NumError\<close>, for
  bad syntax or for a value out of range).
\<close>

definition Atoi :: "string \<Rightarrow> error + int" where
  "Atoi s =
     (let neg = (take 1 s = ''-'');
          ds = (if take 1 s = ''-'' \<or> take 1 s = ''+'' then drop 1 s else s)
      in if ds = [] \<or> \<not> list_all isDigit ds then Inl (NumError s)
         else let v = (if neg then - digitsVal ds else digitsVal ds)
              in if v < - (2 ^ 63) \<or> 2 ^ 63 - 1 < v then Inl (NumError s) else Inr v)"

subsection \<open>\<open>net.ParseIP\<close>\<close>

definition okOctet :: "string \<Rightarrow> bool" where
  "okOctet f = (f \<noteq> [] \<and> list_all isDigit f \<and> (length f = 1 \<or> take 1 f \<noteq> ''0'')
     \<and> digitsVal f \<le> 255)"

text \<open>
  Dotted decimal: four fields, each one to three digits without a leading zero and at most
  255. \<open>None\<close> when the text is not of that form.
\<close>

definition parseIPv4 :: "string \<Rightarrow> nat list option" where
  "parseIPv4 s =
     (let fs = splitOn (CHR ''.'') s
      in if length fs = 4 \<and> list_all okOctet fs then Some (map (\<lambda>f. nat (digitsVal f)) fs) else None)"

definition isHex :: "char \<Rightarrow> bool" where
  "isHex c = (isDigit c \<or> (97 \<le> (of_char c :: nat) \<and> (of_char c :: nat) \<le> 102)
     \<or> (65 \<le> (of_char c :: nat) \<and> (of_char c :: nat) \<le> 70))"

definition hexVal :: "string \<Rightarrow> nat" where
  "hexVal hs = foldl (\<lambda>v c. v * 16 +
      (if isDigit c then (of_char c :: nat) - 48
       else if 97 \<le> (of_char c :: nat) then (of_char c :: nat) - 87
       else (of_char c :: nat) - 55)) 0 hs"

text \<open>
  The end of the IPv6 parser: the text must be used up; fewer than 16 bytes need an ellipsis
  \<open>::\<close>, at byte position \<open>e\<close>, which is filled with zeros; 16 bytes allow none.
\<close>

definition finishIPv6 :: "string \<Rightarrow> nat option \<Rightarrow> nat list \<Rightarrow> nat list option" where
  "finishIPv6 s ellipsis ip =
     (if s \<noteq> [] then None
      else if length ip < 16
      then (case ellipsis of
              None \<Rightarrow> None
            | Some e \<Rightarrow> Some (take e ip @ replicate (16 - length ip) 0 @ drop e ip))
      else if ellipsis \<noteq> None then None
      else Some ip)"

text \<open>
  The loop of the IPv6 parser over the groups of up to four hex digits, separated by colons;
  \<open>ip\<close> are the bytes read so far. A group followed by a dot starts a trailing dotted-decimal
  IPv4 address.
\<close>

function groupsIPv6 :: "string \<Rightarrow> nat option \<Rightarrow> nat list \<Rightarrow> nat list option" where
  "groupsIPv6 s ellipsis ip =
     (if 16 \<le> length ip then finishIPv6 s ellipsis ip
      else
        let hs = takeWhile isHex s; rest = dropWhile isHex s
        in if 4 < length hs \<or> hs = [] then None
           else if take 1 rest = ''.''
           then (if ellipsis = None \<and> length ip \<noteq> 12 then None
                 else if 16 < length ip + 4 then None
                 else (case parseIPv4 s of
                         None \<Rightarrow> None
                       | Some b4 \<Rightarrow> finishIPv6 [] ellipsis (ip @ b4)))
           else
             let ip' = ip @ [hexVal hs div 256, hexVal hs mod 256]
             in if rest = [] then finishIPv6 [] ellipsis ip'
                else if take 1 rest \<noteq> '':'' then None
                else if length rest = 1 then None
                else if take 1 (drop 1 rest) = '':''
                then (if ellipsis \<noteq> None then None
                      else if drop 2 rest = [] then finishIPv6 [] (Some (length ip')) ip'
                      else groupsIPv6 (drop 2 rest) (Some (length ip')) ip')
                else groupsIPv6 (drop 1 rest) ellipsis ip')"
  by pat_completeness auto
termination
proof (relation "measure (\<lambda>(s, e, ip). length s)")
  show "wf (measure (\<lambda>(s, e, ip). length s))" by simp
next
  fix s :: string and ellipsis :: "nat option" and ip :: "nat list" and x xa xb
  assume "xa = dropWhile isHex s"
  then have "length xa \<le> length s" by (simp add: length_dropWhile_le)
  moreover assume "xa \<noteq> []"
  ultimately show "((drop 2 xa, Some (length xb), xb), s, ellipsis, ip)
      \<in> measure (\<lambda>(s, e, ip). length s)"
    by (cases xa) auto
next
  fix s :: string and ellipsis :: "nat option" and ip :: "nat list" and x xa xb
  assume "xa = dropWhile isHex s"
  then have "length xa \<le> length s" by (simp add: length_dropWhile_le)
  moreover assume "xa \<noteq> []"
  ultimately show "((drop 1 xa, ellipsis, xb), s, ellipsis, ip)
      \<in> measure (\<lambda>(s, e, ip). length s)"
    by (cases xa) auto
qed

text \<open>The IPv6 parser. A zone (\<open>%\<close>) is not accepted by \<open>net.ParseIP\<close>.\<close>

definition parseIPv6 :: "string \<Rightarrow> nat list option" where
  "parseIPv6 s =
     (if CHR ''%'' \<in> set s then None
      else if take 2 s = ''::''
      then (if drop 2 s = [] then Some (replicate 16 0) else groupsIPv6 (drop 2 s) (Some 0) [])
      else groupsIPv6 s None [])"

text \<open>
  \<open>net.ParseIP\<close>: the first of the bytes \<open>.\<close>, \<open>:\<close> and \<open>%\<close> in the text decides between dotted
  decimal and IPv6. The result has 16 bytes, an IPv4 address in its IPv4-in-IPv6 form; the
  nil \<open>IP\<close> ([]) when the text is not an IP literal.
\<close>

definition ParseIP :: "string \<Rightarrow> IP" where
  "ParseIP s =
     (case dropWhile (\<lambda>c. c \<noteq> CHR ''.'' \<and> c \<noteq> CHR '':'' \<and> c \<noteq> CHR ''%'') s of
        [] \<Rightarrow> []
      | c # cs \<Rightarrow>
          if c = CHR ''.''
          then (case parseIPv4 s of None \<Rightarrow> [] | Some b4 \<Rightarrow> replicate 10 0 @ [255, 255] @ b4)
          else if c = CHR '':''
          then (case parseIPv6 s of None \<Rightarrow> [] | Some b16 \<Rightarrow> b16)
          else [])"

text \<open>\<open>parseHost\<close> (lines 120-130).\<close>

definition parseHost :: "string \<Rightarrow> error + Host" where
  "parseHost v =
     (case SplitHostPort v of
        Some (ip, port) \<Rightarrow>
          (case Atoi port of
             Inl err \<Rightarrow> Inl err
           | Inr pInt \<Rightarrow> Inr \<lparr>IPs = [ParseIP ip], Port = pInt\<rparr>)
      | None \<Rightarrow> Inr \<lparr>IPs = [ParseIP v], Port = 0\<rparr>)"


section \<open>The pattern validator\<close>

definition alnum :: regex where
  "alnum = Class [(CHR ''a'', CHR ''z''), (CHR ''A'', CHR ''Z''), (CHR ''0'', CHR ''9'')]"

definition alnumHyphen :: regex where
  "alnumHyphen = Class [(CHR ''a'', CHR ''z''), (CHR ''A'', CHR ''Z''), (CHR ''0'', CHR ''9''),
     (CHR ''-'', CHR ''-'')]"

text \<open>\<open>([a-zA-Z0-9]|[a-zA-Z0-9][a-zA-Z0-9\-]*[a-zA-Z0-9])\<close>\<close>

definition labelRegex :: regex where
  "labelRegex = Alt alnum (Seq alnum (Seq (Star alnumHyphen) alnum))"

text \<open>
  \<open>validHostPattern\<close> (hosts.go line 170) between its anchors \<open>^\<close> and \<open>$\<close>:
  \<open>(\*\.?)?(((label)\.)*(label))?(:[0-9]{1,5})?\<close>.
\<close>

definition validHostPattern :: regex where
  "validHostPattern =
     Seq (Opt (Seq (Lit (CHR ''*'')) (Opt (Lit (CHR ''.'')))))
       (Seq (Opt (Seq (Star (Seq labelRegex (Lit (CHR ''.'')))) labelRegex))
         (Opt (Seq (Lit (CHR '':'')) (Rep (Class [(CHR ''0'', CHR ''9'')]) 1 5))))"

text \<open>
  \<open>validHostPattern.FindString(s)\<close>: the text of the leftmost match, or the empty string when
  there is none. The expression is anchored at both ends (\<open>$\<close> without the \<open>m\<close> flag is the end
  of the text), so a match can only be the whole of \<open>s\<close>.
\<close>

definition FindString :: "string \<Rightarrow> string" where
  "FindString s = (if matches validHostPattern s then s else [])"

text \<open>\<open>isValidHostPattern\<close> (lines 172-177); \<open>None\<close> is Go's nil error.\<close>

definition isValidHostPattern :: "string \<Rightarrow> error option" where
  "isValidHostPattern s =
     (if length (FindString s) \<noteq> length s then Some (InvalidHostPattern s) else None)"

section \<open>The trie\<close>

text \<open>
  Modelled from the spec: the type \<open>trieNode\<close> and its methods \<open>insert\<close> and \<open>contains\<close> are not
  in hosts.go, which only creates the root (\<open>&trieNode{children: make(map[rune]*trieNode)}\<close>) and
  calls \<open>t.n.insert(s)\<close> and \<open>t.n.contains(s)\<close>. They follow section 4.3 of the specification
  (Domain Pattern Index): a tree whose edges are domain labels, read right to left; each
  node may be terminal, storing the full pattern, and may have a distinguished wildcard child,
  which stores the wildcard pattern. (The map \<open>children\<close> of the source has runes for keys;
  the specification gives the trie by labels, which its section 9 calls the abstraction of
  the trie of the source, and that is what is modelled.)
\<close>

datatype trieNode =
  TrieNode (terminal: "string option") (wildcard: "string option")
    (children: "string \<Rightarrow> trieNode option")

definition emptyNode :: trieNode where
  "emptyNode = TrieNode None None (\<lambda>l. None)"

text \<open>
  Modelled from the spec: the labels of a name, "one dot-separated segment of a domain name"
  each. A bare IP literal is a single label ("Bare-IP and port-only patterns are logically
  degenerate single-node entries (one label equal to the IP literal, or the empty-labels
  wildcard)").
\<close>

definition labels :: "string \<Rightarrow> string list" where
  "labels s = (if ParseIP s \<noteq> [] then [s] else splitOn (CHR ''.'') s)"

text \<open>
  Modelled from the spec: \<open>Insert\<close> "descends/creates nodes for each label of the canonicalized
  pattern; marks the final node terminal, storing the full canonical pattern string there. A
  wildcard prefix is stored as a special child". \<open>put w p ls t\<close> walks the labels \<open>ls\<close> from the
  root \<open>t\<close>, creating the nodes that are missing, and stores \<open>p\<close> at the node reached: as its
  wildcard child when \<open>w\<close>, as its terminal mark otherwise.
\<close>

fun put :: "bool \<Rightarrow> string \<Rightarrow> string list \<Rightarrow> trieNode \<Rightarrow> trieNode" where
  "put w p [] t =
     (if w then TrieNode (terminal t) (Some p) (children t)
      else TrieNode (Some p) (wildcard t) (children t))"
| "put w p (l # ls) t =
     TrieNode (terminal t) (wildcard t)
       ((children t)(l \<mapsto> put w p ls (case children t l of None \<Rightarrow> emptyNode | Some c \<Rightarrow> c)))"

text \<open>
  Modelled from the spec: \<open>trieNode.insert\<close>. The rightmost label is nearest the root. A
  pattern whose first label is \<open>*\<close> (the wildcard pattern of the glossary, "a pattern beginning
  with \<open>*.\<close>", and the pattern \<open>*\<close> alone, "empty apart from a wildcard") is stored as the wildcard
  child of the node of its remaining labels.
\<close>

definition trieNode_insert :: "trieNode \<Rightarrow> string \<Rightarrow> trieNode" where
  "trieNode_insert t p =
     (case labels p of
        [] \<Rightarrow> t
      | l # ls \<Rightarrow> if l = ''*'' then put True p (rev ls) t else put False p (rev (l # ls)) t)"

text \<open>
  Modelled from the spec: \<open>Lookup\<close> "descends the trie label-by-label from the root; at each
  node, prefer an exact-label child over a wildcard child; if descent exhausts the hostname's
  labels on a terminal node, that is a match; if descent reaches a wildcard child before
  exhausting labels, that counts as an immediate match for all remaining labels, returning the
  wildcard pattern's stored string. If neither an exact full descent nor a wildcard is
  reachable, returns not-found." The exact child is tried first; when the descent through it
  finds nothing, the wildcard child of the node is the match.
\<close>

fun look :: "trieNode \<Rightarrow> string list \<Rightarrow> string option" where
  "look t [] = terminal t"
| "look t (l # ls) =
     (case (case children t l of None \<Rightarrow> None | Some c \<Rightarrow> look c ls) of
        Some m \<Rightarrow> Some m
      | None \<Rightarrow> wildcard t)"

text \<open>
  Modelled from the spec: \<open>trieNode.contains\<close>, which "canonicalizes the hostname (lower-case)"
  and returns the matched pattern and whether there is one, as the call
  \<open>match, ok := t.n.contains(s)\<close> expects.
\<close>

definition trieNode_contains :: "trieNode \<Rightarrow> string \<Rightarrow> string \<times> bool" where
  "trieNode_contains t s =
     (case look t (rev (labels (ToLower s))) of None \<Rightarrow> ([], False) | Some m \<Rightarrow> (m, True))"

section \<open>The host set\<close>

text \<open>\<open>Hosts\<close> (lines 133-136): the trie and the side table from pattern to address value.\<close>

record Hosts =
  n :: trieNode
  source :: "string \<rightharpoonup> Host"

text \<open>
  A \<open>map[string]Host\<close> argument is given as the list of its entries in the order \<open>range\<close> visits
  them (Go leaves that order open), its keys distinct.
\<close>

type_synonym hostMap = "(string \<times> Host) list"

text \<open>\<open>toLowerKeys\<close> (lines 157-163): a later entry overwrites an earlier one with the same lower-cased key.\<close>

fun toLowerKeys_loop :: "(string \<rightharpoonup> Host) \<Rightarrow> hostMap \<Rightarrow> (string \<rightharpoonup> Host)" where
  "toLowerKeys_loop result [] = result"
| "toLowerKeys_loop result ((k, v) # rest) = toLowerKeys_loop (result(ToLower k \<mapsto> v)) rest"

definition toLowerKeys :: "hostMap \<Rightarrow> (string \<rightharpoonup> Host)" where
  "toLowerKeys src = toLowerKeys_loop Map.empty src"

text \<open>\<open>Hosts.insert\<close> (lines 179-189).\<close>

definition Hosts_insert :: "Hosts \<Rightarrow> string \<Rightarrow> error + Hosts" where
  "Hosts_insert t s =
     (let s' = ToLower s in
      case isValidHostPattern s' of
        Some err \<Rightarrow> Inl err
      | None \<Rightarrow> Inr (t\<lparr>n := trieNode_insert (n t) s'\<rparr>))"

text \<open>
  The loop of \<open>NewHosts\<close> (lines 147-152) over the keys of \<open>h.source\<close>, in the order \<open>ks\<close> in which
  \<open>range\<close> visits them; it returns at the first error.
\<close>

fun insertKeys :: "Hosts \<Rightarrow> string list \<Rightarrow> error + Hosts" where
  "insertKeys h [] = Inr h"
| "insertKeys h (k # ks) =
     (case Hosts_insert h k of Inl err \<Rightarrow> Inl err | Inr h' \<Rightarrow> insertKeys h' ks)"

text \<open>\<open>ks\<close> is an order in which \<open>range\<close> can visit the keys of the map \<open>m\<close>.\<close>

definition rangeOrder :: "string list \<Rightarrow> (string \<rightharpoonup> Host) \<Rightarrow> bool" where
  "rangeOrder ks m = (distinct ks \<and> set ks = dom m)"

text \<open>
  \<open>NewHosts\<close> (lines 139-155). \<open>ks\<close> is the order in which the loop visits the keys of
  \<open>h.source\<close>; the statements below hold for every such order. \<open>Inl err\<close> is the return
  \<open>nil, err\<close>: no \<open>Hosts\<close> value.
\<close>

definition NewHosts :: "string list \<Rightarrow> hostMap \<Rightarrow> error + Hosts" where
  "NewHosts ks src = insertKeys \<lparr>n = emptyNode, source = toLowerKeys src\<rparr> ks"

text \<open>
  \<open>Hosts.Match\<close> (lines 195-206). \<open>None\<close> is the nil pointer; a key missing from \<open>t.source\<close>
  reads as the zero \<open>Host\<close>.
\<close>

definition Match :: "Hosts \<Rightarrow> string \<Rightarrow> Host option" where
  "Match t s =
     (let s' = ToLower s;
          (match, ok) = trieNode_contains (n t) s'
      in if \<not> ok then None
         else Some (case source t match of None \<Rightarrow> zeroHost | Some address \<Rightarrow> address))"

section \<open>The optional host set and its JSON form\<close>

text \<open>\<open>NullHosts\<close> (lines 16-19); \<open>Trie\<close> is a pointer, \<open>None\<close> when nil.\<close>

record NullHosts =
  Trie :: "Hosts option"
  Valid :: bool

text \<open>\<open>NewNullHosts\<close> (lines 22-32); on an error it returns the zero \<open>NullHosts\<close> with the error.\<close>

definition NewNullHosts :: "string list \<Rightarrow> hostMap \<Rightarrow> NullHosts \<times> error option" where
  "NewNullHosts ks src =
     (case NewHosts ks src of
        Inl err \<Rightarrow> (\<lparr>Trie = None, Valid = False\<rparr>, Some err)
      | Inr hosts \<Rightarrow> (\<lparr>Trie = Some hosts, Valid = True\<rparr>, None))"






text \<open>
  The inner loop of \<open>UnmarshalJSON\<close> (lines 89-104) over the items of an array, with the
  variables \<open>ips\<close> and \<open>port\<close>; after it, line 105 builds the \<open>Host\<close>.
\<close>

fun decodeItems :: "string \<Rightarrow> jvalue list \<Rightarrow> IP list \<Rightarrow> int \<Rightarrow> error + Host" where
  "decodeItems k [] ips port = Inr \<lparr>IPs = ips, Port = port\<rparr>"
| "decodeItems k (item # val) ips port =
     (case item of
        JString s \<Rightarrow>
          (case parseHost s of
             Inl err \<Rightarrow> Inl err
           | Inr h \<Rightarrow>
               if port = 0 then decodeItems k val (ips @ IPs h) (Port h)
               else if Port h \<noteq> 0 \<and> Port h \<noteq> port then Inl (ConflictingPorts k)
               else decodeItems k val (ips @ IPs h) port)
      | _ \<Rightarrow> Inl (InvalidHostValue item))"

text \<open>The type switch of \<open>UnmarshalJSON\<close> (lines 79-108) for one entry \<open>k, v\<close> of \<open>jsonSource\<close>.\<close>

definition decodeEntry :: "string \<Rightarrow> jvalue \<Rightarrow> error + Host" where
  "decodeEntry k v =
     (case v of
        JString val \<Rightarrow> parseHost val
      | JArray val \<Rightarrow> decodeItems k val [] 0
      | JOther \<Rightarrow> Inl (InvalidHostValueType k))"



section \<open>Match with the memory made explicit\<close>

text \<open>
  In Go the field \<open>IPs\<close> of a \<open>Host\<close> is a slice: a reference to a backing array. Assigning a
  \<open>Host\<close> (\<open>address := t.source[match]\<close>) copies the struct, that is the port and the reference,
  not the array. This section repeats \<open>Hosts\<close> and \<open>Match\<close> with that memory: \<open>arrays\<close> holds the
  backing arrays, \<open>hostVars\<close> the \<open>Host\<close> variables whose address has been taken (the variable
  \<open>address\<close> of \<open>Match\<close>), \<open>nextAddr\<close> the next address to allocate.
\<close>

type_synonym addr = nat

record HostRep =
  IPsRef :: "addr option"
  PortRep :: int

record memory =
  arrays :: "addr \<rightharpoonup> IP list"
  hostVars :: "addr \<rightharpoonup> HostRep"
  nextAddr :: addr

record HostsRep =
  nRep :: trieNode
  sourceRep :: "string \<rightharpoonup> HostRep"

definition zeroHostRep :: HostRep where
  "zeroHostRep = \<lparr>IPsRef = None, PortRep = 0\<rparr>"

text \<open>The \<open>Host\<close> a struct stands for in a memory, and the \<open>Hosts\<close> a host set stands for.\<close>

definition readHost :: "memory \<Rightarrow> HostRep \<Rightarrow> Host" where
  "readHost m r =
     \<lparr>IPs = (case IPsRef r of
               None \<Rightarrow> []
             | Some a \<Rightarrow> (case arrays m a of None \<Rightarrow> [] | Some ips \<Rightarrow> ips)),
      Port = PortRep r\<rparr>"

definition readHosts :: "memory \<Rightarrow> HostsRep \<Rightarrow> Hosts" where
  "readHosts m t = \<lparr>n = nRep t, source = (\<lambda>k. map_option (readHost m) (sourceRep t k))\<rparr>"

text \<open>
  \<open>Hosts.Match\<close> (lines 195-206) on this memory: \<open>address\<close> is a new variable that receives a
  copy of the struct, and the result is its address (\<open>None\<close>: nil).
\<close>

definition MatchRep :: "HostsRep \<Rightarrow> string \<Rightarrow> memory \<Rightarrow> addr option \<times> memory" where
  "MatchRep t s m =
     (let s' = ToLower s;
          (match, ok) = trieNode_contains (nRep t) s'
      in if \<not> ok then (None, m)
         else let address = (case sourceRep t match of None \<Rightarrow> zeroHostRep | Some a \<Rightarrow> a)
              in (Some (nextAddr m),
                  m\<lparr>hostVars := (hostVars m)(nextAddr m \<mapsto> address), nextAddr := nextAddr m + 1\<rparr>))"

text \<open>
  What a caller can do with the pointer \<open>p\<close> it got: assign a field (\<open>p.Port = v\<close>,
  \<open>p.IPs = ...\<close>), or write an element of the slice (\<open>p.IPs[i] = ip\<close>). \<open>None\<close> is the panic of a
  nil pointer or of an index out of range.
\<close>

definition setPort :: "addr \<Rightarrow> int \<Rightarrow> memory \<Rightarrow> memory option" where
  "setPort p v m =
     (case hostVars m p of
        None \<Rightarrow> None
      | Some r \<Rightarrow> Some (m\<lparr>hostVars := (hostVars m)(p \<mapsto> r\<lparr>PortRep := v\<rparr>)\<rparr>))"

definition setIPs :: "addr \<Rightarrow> addr option \<Rightarrow> memory \<Rightarrow> memory option" where
  "setIPs p a m =
     (case hostVars m p of
        None \<Rightarrow> None
      | Some r \<Rightarrow> Some (m\<lparr>hostVars := (hostVars m)(p \<mapsto> r\<lparr>IPsRef := a\<rparr>)\<rparr>))"

definition setIPsElem :: "addr \<Rightarrow> nat \<Rightarrow> IP \<Rightarrow> memory \<Rightarrow> memory option" where
  "setIPsElem p i ip m =
     (case hostVars m p of
        None \<Rightarrow> None
      | Some r \<Rightarrow>
          (case IPsRef r of
             None \<Rightarrow> None
           | Some a \<Rightarrow>
               (case arrays m a of
                  None \<Rightarrow> None
                | Some ips \<Rightarrow>
                    if i < length ips then Some (m\<lparr>arrays := (arrays m)(a \<mapsto> ips[i := ip])\<rparr>)
                    else None)))"

section \<open>Reading the trie by paths\<close>

text \<open>
  The definitions of this section are not part of the program: they describe a trie by what
  is stored along each path of labels, and the proofs below use them.
\<close>

text \<open>\<open>strings.Join(ls, ".")\<close>, the inverse of \<open>labels\<close>.\<close>

fun joinDots :: "string list \<Rightarrow> string" where
  "joinDots [] = []"
| "joinDots [x] = x"
| "joinDots (x # y # ys) = x @ CHR ''.'' # joinDots (y # ys)"




text \<open>Whether \<open>trieNode_insert\<close> stores a pattern as a wildcard child, and the path it walks.\<close>

definition isWild :: "string \<Rightarrow> bool" where
  "isWild p = (hd (labels p) = ''*'')"

definition path :: "string \<Rightarrow> string list" where
  "path p = (if isWild p then rev (tl (labels p)) else rev (labels p))"



text \<open>
  The IP portion of an address string: the host that \<open>net.SplitHostPort\<close> splits off, or the
  whole string when it splits nothing.
\<close>

definition ipPortion :: "string \<Rightarrow> string" where
  "ipPortion v = (case SplitHostPort v of Some (ip, port) \<Rightarrow> ip | None \<Rightarrow> v)"




section \<open>Lemmas\<close>


lemma toLowerByte_idem: "toLowerByte (toLowerByte c) = toLowerByte c"
  by (simp add: toLowerByte_def isUpperASCII_def)

lemma ToLower_idem: "ToLower (ToLower s) = ToLower s"
  by (simp add: ToLower_def toLowerByte_idem)

lemma dom_toLowerKeys_loop:
  "dom (toLowerKeys_loop m src) = dom m \<union> ToLower ` fst ` set src"
proof (induction src arbitrary: m)
  case Nil
  then show ?case by simp
next
  case (Cons a src)
  obtain k v where a: "a = (k, v)" by (cases a)
  have "dom (toLowerKeys_loop (m(ToLower k \<mapsto> v)) src)
          = dom (m(ToLower k \<mapsto> v)) \<union> ToLower ` fst ` set src"
    by (rule Cons.IH)
  then show ?case by (simp add: a)
qed

lemma dom_toLowerKeys: "dom (toLowerKeys src) = ToLower ` fst ` set src"
  by (simp add: toLowerKeys_def dom_toLowerKeys_loop)


lemma matches_empty: "matches validHostPattern []"
  by (simp add: matches_def validHostPattern_def)

lemma isValidHostPattern_iff: "(isValidHostPattern s = None) = matches validHostPattern s"
  using matches_empty by (cases s) (auto simp: isValidHostPattern_def FindString_def)

lemma insertKeys_ok:
  "\<forall>k\<in>set ks. isValidHostPattern (ToLower k) = None \<Longrightarrow>
   insertKeys h ks = Inr (h\<lparr>n := foldl trieNode_insert (n h) (map ToLower ks)\<rparr>)"
  by (induction ks arbitrary: h) (simp_all add: Hosts_insert_def)



lemma rangeOrder_lower: "rangeOrder ks (toLowerKeys src) \<Longrightarrow> k \<in> set ks \<Longrightarrow> ToLower k = k"
  by (auto simp: rangeOrder_def dom_toLowerKeys ToLower_idem)

lemma splitOn_nonempty: "splitOn d s \<noteq> []"
  by (induction s) (auto split: list.splits)

lemma joinDots_Cons: "ls \<noteq> [] \<Longrightarrow> joinDots (x # ls) = x @ CHR ''.'' # joinDots ls"
  by (cases ls) simp_all

lemma joinDots_splitOn: "joinDots (splitOn (CHR ''.'') s) = s"
proof (induction s)
  case Nil
  then show ?case by simp
next
  case (Cons c s)
  show ?case
  proof (cases "c = CHR ''.''")
    case True
    then show ?thesis using Cons by (simp add: joinDots_Cons splitOn_nonempty)
  next
    case False
    obtain x xs where sp: "splitOn (CHR ''.'') s = x # xs"
      using splitOn_nonempty [of "CHR ''.''" s] by (cases "splitOn (CHR ''.'') s") auto
    with Cons have "joinDots (x # xs) = s" by simp
    then have "joinDots ((c # x) # xs) = c # s" by (cases xs) auto
    with False sp show ?thesis by simp
  qed
qed

lemma joinDots_labels: "joinDots (labels s) = s"
  by (simp add: labels_def joinDots_splitOn)

lemma labels_nonempty: "labels s \<noteq> []"
  by (simp add: labels_def splitOn_nonempty)








lemma labels_inj: "labels p = labels q \<Longrightarrow> p = q"
  by (metis joinDots_labels)

lemma path_inj: "isWild p = isWild q \<Longrightarrow> path p = path q \<Longrightarrow> p = q"
proof -
  assume w: "isWild p = isWild q" and pq: "path p = path q"
  show "p = q"
  proof (cases "isWild p")
    case True
    with w pq have "tl (labels p) = tl (labels q)" "hd (labels p) = hd (labels q)"
      by (simp_all add: path_def isWild_def)
    then have "labels p = labels q"
      using labels_nonempty [of p] labels_nonempty [of q] by (metis list.collapse)
    then show ?thesis by (rule labels_inj)
  next
    case False
    with w pq have "labels p = labels q" by (simp add: path_def)
    then show ?thesis by (rule labels_inj)
  qed
qed



















lemma Atoi_error: "Atoi s = Inl err \<Longrightarrow> err = NumError s"
  by (auto simp: Atoi_def Let_def split: if_splits)

lemma Atoi_range: "Atoi s = Inr v \<Longrightarrow> - (2 ^ 63) \<le> v \<and> v \<le> 2 ^ 63 - 1"
  by (auto simp: Atoi_def Let_def split: if_splits)

lemma parseHost_port:
  "parseHost v = Inr a \<Longrightarrow>
     - (2 ^ 63) \<le> Port a \<and> Port a \<le> 2 ^ 63 - 1 \<and>
     (case SplitHostPort v of None \<Rightarrow> Port a = 0 | Some (ip, port) \<Rightarrow> Atoi port = Inr (Port a))"
  by (auto simp: parseHost_def dest!: Atoi_range split: option.splits sum.splits)

lemma decodeItems_port:
  "decodeItems k items ips port = Inr a \<Longrightarrow> - (2 ^ 63) \<le> port \<and> port \<le> 2 ^ 63 - 1 \<Longrightarrow>
   - (2 ^ 63) \<le> Port a \<and> Port a \<le> 2 ^ 63 - 1"
proof (induction items arbitrary: ips port)
  case Nil
  then show ?case by auto
next
  case (Cons item items)
  from Cons.prems(1) obtain s h where i: "item = JString s" and p: "parseHost s = Inr h"
    by (auto split: jvalue.splits sum.splits)
  from parseHost_port [OF p] have r: "- (2 ^ 63) \<le> Port h \<and> Port h \<le> 2 ^ 63 - 1" by simp
  show ?case
  proof (cases "port = 0")
    case True
    with Cons.prems(1) i p have "decodeItems k items (ips @ IPs h) (Port h) = Inr a" by simp
    from Cons.IH [OF this r] show ?thesis .
  next
    case False
    with Cons.prems(1) i p have "decodeItems k items (ips @ IPs h) port = Inr a"
      by (simp split: if_splits)
    from Cons.IH [OF this Cons.prems(2)] show ?thesis .
  qed
qed




lemma readHost_hostVars [simp]:
  "readHost (m\<lparr>hostVars := hv\<rparr>) r = readHost m r"
  "readHost (m\<lparr>nextAddr := na\<rparr>) r = readHost m r"
  by (simp_all add: readHost_def cong: option.case_cong)

lemma readHost_hostVars_fun [simp]:
  "readHost (m\<lparr>hostVars := hv\<rparr>) = readHost m"
  "readHost (m\<lparr>nextAddr := na\<rparr>) = readHost m"
  by (rule ext, simp)+

lemma readHosts_hostVars [simp]:
  "readHosts (m\<lparr>hostVars := hv\<rparr>) t = readHosts m t"
  "readHosts (m\<lparr>nextAddr := na\<rparr>) t = readHosts m t"
  by (simp_all add: readHosts_def)

lemma readHost_zero: "readHost m zeroHostRep = zeroHost"
  by (simp add: readHost_def zeroHostRep_def zeroHost_def)









section \<open>The claims\<close>

text \<open>
  Claim C10. The empty string is a valid pattern: \<open>isValidHostPattern ""\<close> returns no error, and
  so \<open>NewHosts\<close> succeeds on a mapping that has the key \<open>""\<close> and whose other keys are valid, in
  whatever order the keys are visited.
\<close>

theorem empty_pattern_accepted:
  "isValidHostPattern [] = None \<and>
   (rangeOrder ks (toLowerKeys src) \<longrightarrow>
    (\<forall>k\<in>set ks. k \<noteq> [] \<longrightarrow> isValidHostPattern k = None) \<longrightarrow>
      NewHosts ks src =
        Inr \<lparr>n = foldl trieNode_insert emptyNode ks, source = toLowerKeys src\<rparr>)"
proof -
  have e: "isValidHostPattern [] = None"
    using matches_empty isValidHostPattern_iff by blast
  have "NewHosts ks src = Inr \<lparr>n = foldl trieNode_insert emptyNode ks, source = toLowerKeys src\<rparr>"
    if r: "rangeOrder ks (toLowerKeys src)"
      and v: "\<forall>k\<in>set ks. k \<noteq> [] \<longrightarrow> isValidHostPattern k = None"
  proof -
    have low: "\<And>x. x \<in> set ks \<Longrightarrow> ToLower x = x"
      using rangeOrder_lower [OF r] by blast
    then have m: "map ToLower ks = ks" by (simp add: map_idI)
    have "\<forall>k\<in>set ks. isValidHostPattern (ToLower k) = None"
      using v e low by metis
    from insertKeys_ok [OF this] show ?thesis by (simp add: NewHosts_def m)
  qed
  with e show ?thesis by blast
qed

theorem empty_pattern_accepted_witness:
  "rangeOrder [[], ''a.com''] (toLowerKeys [([], zeroHost), (''A.com'', zeroHost)]) \<and>
   NewHosts [[], ''a.com''] [([], zeroHost), (''A.com'', zeroHost)] =
     Inr \<lparr>n = foldl trieNode_insert emptyNode [[], ''a.com''],
          source = toLowerKeys [([], zeroHost), (''A.com'', zeroHost)]\<rparr>"
proof -
  have l: "ToLower ''A.com'' = ''a.com''" "ToLower [] = []" by code_simp+
  have r: "rangeOrder [[], ''a.com''] (toLowerKeys [([], zeroHost), (''A.com'', zeroHost)])"
    by (auto simp: rangeOrder_def toLowerKeys_def l)
  have a: "isValidHostPattern ''a.com'' = None" by code_simp
  then have v: "\<forall>k\<in>set [[], ''a.com'']. k \<noteq> [] \<longrightarrow> isValidHostPattern k = None"
    by simp
  from empty_pattern_accepted [of "[[], ''a.com'']" "[([], zeroHost), (''A.com'', zeroHost)]"] r v
  show ?thesis by blast
qed











text \<open>
  Claim C3, as stated: \<open>parseHost\<close> returns an error for every string whose IP portion is not
  a valid IP literal. It returns none for \<open>example.com\<close> or \<open>999.1.1.1:80\<close>: the result of
  \<open>net.ParseIP\<close> is not checked, and the address value holds the nil IP.
\<close>

theorem parseHost_invalid_ip_counterexample:
  "ParseIP (ipPortion ''example.com'') = [] \<and>
   parseHost ''example.com'' = Inr \<lparr>IPs = [[]], Port = 0\<rparr> \<and>
   ParseIP (ipPortion ''999.1.1.1:80'') = [] \<and>
   parseHost ''999.1.1.1:80'' = Inr \<lparr>IPs = [[]], Port = 80\<rparr>"
  by code_simp

text \<open>
  Claim C3, amended: \<open>parseHost\<close> returns an error exactly when \<open>net.SplitHostPort\<close> splits a
  port off and \<open>strconv.Atoi\<close> rejects that port; the error is then the \<open>NumError\<close> of the port
  text. In every other case it returns an address value with one IP, the result of
  \<open>net.ParseIP\<close> on the IP portion, which is the nil IP when that is not an IP literal.
\<close>

theorem parseHost_errors:
  "((\<exists>err. parseHost v = Inl err) \<longleftrightarrow>
      (\<exists>ip port err. SplitHostPort v = Some (ip, port) \<and> Atoi port = Inl err)) \<and>
   (parseHost v = Inl err \<longrightarrow>
      (\<exists>ip port. SplitHostPort v = Some (ip, port) \<and> err = NumError port)) \<and>
   (parseHost v = Inr a \<longrightarrow> IPs a = [ParseIP (ipPortion v)])"
  by (auto simp: parseHost_def ipPortion_def dest: Atoi_error split: option.splits sum.splits)

theorem parseHost_errors_witness:
  "parseHost ''1.1.1.1:http'' = Inl (NumError ''http'') \<and>
   SplitHostPort ''1.1.1.1:http'' = Some (''1.1.1.1'', ''http'') \<and>
   parseHost ''not an ip'' = Inr \<lparr>IPs = [[]], Port = 0\<rparr> \<and>
   IPs \<lparr>IPs = [[]], Port = 0\<rparr> = [ParseIP (ipPortion ''not an ip'')]"
proof -
  have a: "parseHost ''1.1.1.1:http'' = Inl (NumError ''http'')"
    and b: "parseHost ''not an ip'' = Inr \<lparr>IPs = [[]], Port = 0\<rparr>"
    and c: "SplitHostPort ''1.1.1.1:http'' = Some (''1.1.1.1'', ''http'')"
    by code_simp+
  from parseHost_errors [of "''not an ip''" "NumError []" "\<lparr>IPs = [[]], Port = 0\<rparr>"] b
  have "IPs \<lparr>IPs = [[]], Port = 0\<rparr> = [ParseIP (ipPortion ''not an ip'')]" by blast
  with a b c show ?thesis by blast
qed

text \<open>
  Claim C8, as stated: every address value \<open>parseHost\<close> produces has a port in [0,65535]. The
  port is whatever \<open>strconv.Atoi\<close> reads: 70000 for \<open>1.1.1.1:70000\<close> and -1 for \<open>1.1.1.1:-1\<close>.
\<close>

theorem parseHost_port_counterexample:
  "parseHost ''1.1.1.1:70000'' =
     Inr \<lparr>IPs = [[0, 0, 0, 0, 0, 0, 0, 0, 0, 0, 255, 255, 1, 1, 1, 1]], Port = 70000\<rparr> \<and>
   \<not> Port \<lparr>IPs = [[0, 0, 0, 0, 0, 0, 0, 0, 0, 0, 255, 255, 1, 1, 1, 1]], Port = 70000\<rparr> \<le> 65535 \<and>
   parseHost ''1.1.1.1:-1'' =
     Inr \<lparr>IPs = [[0, 0, 0, 0, 0, 0, 0, 0, 0, 0, 255, 255, 1, 1, 1, 1]], Port = - 1\<rparr> \<and>
   \<not> 0 \<le> Port \<lparr>IPs = [[0, 0, 0, 0, 0, 0, 0, 0, 0, 0, 255, 255, 1, 1, 1, 1]], Port = - 1\<rparr>"
  by code_simp

text \<open>
  Claim C8, amended: every address value produced by \<open>parseHost\<close>, or by decoding a JSON value
  (a string or an array of strings), has a port within the range of a 64-bit \<open>int\<close>; for
  \<open>parseHost\<close> it is 0 when no port suffix is split off, and the value \<open>strconv.Atoi\<close> reads
  from the suffix otherwise.
\<close>

theorem parsed_port_range:
  "(parseHost v = Inr a \<longrightarrow>
      - (2 ^ 63) \<le> Port a \<and> Port a \<le> 2 ^ 63 - 1 \<and>
      (case SplitHostPort v of None \<Rightarrow> Port a = 0 | Some (ip, port) \<Rightarrow> Atoi port = Inr (Port a))) \<and>
   (decodeEntry k jv = Inr b \<longrightarrow> - (2 ^ 63) \<le> Port b \<and> Port b \<le> 2 ^ 63 - 1)"
proof -
  have "- (2 ^ 63) \<le> Port b \<and> Port b \<le> 2 ^ 63 - 1" if d: "decodeEntry k jv = Inr b"
  proof (cases jv)
    case (JString s)
    with d parseHost_port [of s b] show ?thesis by (simp add: decodeEntry_def)
  next
    case (JArray items)
    with d decodeItems_port [of k items "[]" 0 b] show ?thesis by (simp add: decodeEntry_def)
  next
    case JOther
    with d show ?thesis by (simp add: decodeEntry_def)
  qed
  with parseHost_port [of v a] show ?thesis by blast
qed

theorem parsed_port_range_witness:
  "parseHost ''[::1]:443'' =
     Inr \<lparr>IPs = [[0, 0, 0, 0, 0, 0, 0, 0, 0, 0, 0, 0, 0, 0, 0, 1]], Port = 443\<rparr> \<and>
   - (2 ^ 63) \<le> Port \<lparr>IPs = [[0, 0, 0, 0, 0, 0, 0, 0, 0, 0, 0, 0, 0, 0, 0, 1]], Port = 443\<rparr> \<and>
   Port \<lparr>IPs = [[0, 0, 0, 0, 0, 0, 0, 0, 0, 0, 0, 0, 0, 0, 0, 1]], Port = 443\<rparr> \<le> 2 ^ 63 - 1 \<and>
   decodeEntry ''a.com'' (JArray [JString ''1.1.1.1'', JString ''2.2.2.2:81'']) =
     Inr \<lparr>IPs = [[0, 0, 0, 0, 0, 0, 0, 0, 0, 0, 255, 255, 1, 1, 1, 1],
                 [0, 0, 0, 0, 0, 0, 0, 0, 0, 0, 255, 255, 2, 2, 2, 2]], Port = 81\<rparr>"
proof -
  let ?a = "\<lparr>IPs = [[0, 0, 0, 0, 0, 0, 0, 0, 0, 0, 0, 0, 0, 0, 0, 1 :: nat]], Port = 443\<rparr>"
  let ?b = "\<lparr>IPs = [[0, 0, 0, 0, 0, 0, 0, 0, 0, 0, 255, 255, 1, 1, 1, 1 :: nat],
                 [0, 0, 0, 0, 0, 0, 0, 0, 0, 0, 255, 255, 2, 2, 2, 2]], Port = 81\<rparr>"
  have p: "parseHost ''[::1]:443'' = Inr ?a" by code_simp
  have d: "decodeEntry ''a.com'' (JArray [JString ''1.1.1.1'', JString ''2.2.2.2:81'']) = Inr ?b"
    by code_simp
  from parsed_port_range [of "''[::1]:443''" ?a "''a.com''"
      "JArray [JString ''1.1.1.1'', JString ''2.2.2.2:81'']" ?b] p d
  show ?thesis by simp
qed





text \<open>
  Claim C9, as stated: changing the value \<open>Match\<close> returns leaves the stored mapping
  unchanged. The returned \<open>Host\<close> is a copy of the struct, and its slice \<open>IPs\<close> refers to the
  backing array of the stored one: after \<open>p.IPs[0] = ip\<close> on the result \<open>p\<close>, the side table
  reads the new IP under the pattern.
\<close>

theorem Match_copy_counterexample:
  "(case MatchRep
       \<lparr>nRep = trieNode_insert emptyNode ''a.com'',
        sourceRep = [''a.com'' \<mapsto> \<lparr>IPsRef = Some 0, PortRep = 80\<rparr>]\<rparr>
       ''a.com''
       \<lparr>arrays = [0 \<mapsto> [[10, 0, 0, 1]]], hostVars = Map.empty, nextAddr = 1\<rparr> of
     (None, m') \<Rightarrow> False
   | (Some p, m') \<Rightarrow>
       (case setIPsElem p 0 [6, 6, 6, 6] m' of
          None \<Rightarrow> False
        | Some m'' \<Rightarrow>
            source (readHosts m'
              \<lparr>nRep = trieNode_insert emptyNode ''a.com'',
               sourceRep = [''a.com'' \<mapsto> \<lparr>IPsRef = Some 0, PortRep = 80\<rparr>]\<rparr>) ''a.com''
              = Some \<lparr>IPs = [[10, 0, 0, 1]], Port = 80\<rparr> \<and>
            source (readHosts m''
              \<lparr>nRep = trieNode_insert emptyNode ''a.com'',
               sourceRep = [''a.com'' \<mapsto> \<lparr>IPsRef = Some 0, PortRep = 80\<rparr>]\<rparr>) ''a.com''
              = Some \<lparr>IPs = [[6, 6, 6, 6]], Port = 80\<rparr>))"
  by code_simp

text \<open>
  Claim C9, amended: on a hit \<open>Match\<close> returns the address of a new variable that holds a copy
  of the struct stored under the matched pattern (the same port and the same slice), and what
  it returns reads as the stored address value; assigning the \<open>Port\<close> or the \<open>IPs\<close> field of
  the result leaves the stored mapping unchanged. On a miss it returns nil, changes nothing,
  and there is no error.
\<close>

theorem Match_returns_struct_copy:
  assumes "MatchRep t s m = (r, m')"
  shows "(r = None \<longrightarrow> Match (readHosts m t) s = None \<and> m' = m) \<and>
         (\<forall>p. r = Some p \<longrightarrow>
            (\<exists>rep. hostVars m' p = Some rep \<and>
               rep = (case sourceRep t (fst (trieNode_contains (nRep t) (ToLower s))) of
                        None \<Rightarrow> zeroHostRep | Some a \<Rightarrow> a) \<and>
               Match (readHosts m t) s = Some (readHost m rep)) \<and>
            readHosts m' t = readHosts m t \<and>
            (\<forall>v. \<exists>m2. setPort p v m' = Some m2 \<and> readHosts m2 t = readHosts m t) \<and>
            (\<forall>a. \<exists>m2. setIPs p a m' = Some m2 \<and> readHosts m2 t = readHosts m t))"
proof (cases "snd (trieNode_contains (nRep t) (ToLower s))")
  case False
  with assms have "r = None" "m' = m"
    by (auto simp: MatchRep_def Let_def split: prod.splits)
  moreover from False have "Match (readHosts m t) s = None"
    by (auto simp: Match_def readHosts_def Let_def split: prod.splits)
  ultimately show ?thesis by simp
next
  case True
  let ?rep = "case sourceRep t (fst (trieNode_contains (nRep t) (ToLower s))) of
                None \<Rightarrow> zeroHostRep | Some a \<Rightarrow> a"
  from True assms have r: "r = Some (nextAddr m)"
    and m': "m' = m\<lparr>hostVars := (hostVars m)(nextAddr m \<mapsto> ?rep), nextAddr := nextAddr m + 1\<rparr>"
    by (auto simp: MatchRep_def Let_def split: prod.splits)
  from True have "Match (readHosts m t) s = Some (readHost m ?rep)"
    by (auto simp: Match_def readHosts_def Let_def readHost_zero split: prod.splits option.splits)
  with r m' show ?thesis
    by (simp add: setPort_def setIPs_def)
qed

theorem Match_returns_struct_copy_witness:
  "fst (MatchRep
       \<lparr>nRep = trieNode_insert emptyNode ''a.com'',
        sourceRep = [''a.com'' \<mapsto> \<lparr>IPsRef = Some 0, PortRep = 80\<rparr>]\<rparr>
       ''A.com''
       \<lparr>arrays = [0 \<mapsto> [[10, 0, 0, 1]]], hostVars = Map.empty, nextAddr = 1\<rparr>) = Some 1 \<and>
   (\<exists>m2. setPort 1 8080 (snd (MatchRep
       \<lparr>nRep = trieNode_insert emptyNode ''a.com'',
        sourceRep = [''a.com'' \<mapsto> \<lparr>IPsRef = Some 0, PortRep = 80\<rparr>]\<rparr>
       ''A.com''
       \<lparr>arrays = [0 \<mapsto> [[10, 0, 0, 1]]], hostVars = Map.empty, nextAddr = 1\<rparr>)) = Some m2 \<and>
     readHosts m2 \<lparr>nRep = trieNode_insert emptyNode ''a.com'',
        sourceRep = [''a.com'' \<mapsto> \<lparr>IPsRef = Some 0, PortRep = 80\<rparr>]\<rparr> =
     readHosts \<lparr>arrays = [0 \<mapsto> [[10, 0, 0, 1]]], hostVars = Map.empty, nextAddr = 1\<rparr>
       \<lparr>nRep = trieNode_insert emptyNode ''a.com'',
        sourceRep = [''a.com'' \<mapsto> \<lparr>IPsRef = Some 0, PortRep = 80\<rparr>]\<rparr>)"
proof -
  let ?t = "\<lparr>nRep = trieNode_insert emptyNode ''a.com'',
        sourceRep = [''a.com'' \<mapsto> \<lparr>IPsRef = Some 0, PortRep = 80\<rparr>]\<rparr>"
  let ?m = "\<lparr>arrays = [0 \<mapsto> [[10, 0, 0, 1 :: nat]]], hostVars = Map.empty, nextAddr = 1\<rparr>"
  have r: "fst (MatchRep ?t ''A.com'' ?m) = Some 1" by code_simp
  have h: "MatchRep ?t ''A.com'' ?m = (fst (MatchRep ?t ''A.com'' ?m), snd (MatchRep ?t ''A.com'' ?m))"
    by simp
  from Match_returns_struct_copy [OF h] r show ?thesis by blast
qed

end
